theory Spec2Isabelle
  imports Main "HOL-Library.Sublist"
begin

section \<open>Python values, errors and the process environment\<close>

text \<open>
  The module \<^verbatim>\<open>src/mssql_mcp_server/utils.py\<close> has three functions:
  \<^verbatim>\<open>validate_table_name\<close>, \<^verbatim>\<open>get_db_config\<close> and \<^verbatim>\<open>get_command\<close>.
  A Python \<^verbatim>\<open>str\<close> is modelled as a \<open>string\<close> that holds the bytes of its UTF-8
  encoding; for an environment variable these are the bytes the operating system
  holds. ASCII text is its own encoding. Both functions raise \<^verbatim>\<open>ValueError\<close>
  with a message; a raise is the \<open>Inl\<close> branch of the result.
\<close>

datatype error = ValueError string

text \<open>
  The values stored in the configuration dictionary: \<^verbatim>\<open>None\<close>, a \<^verbatim>\<open>str\<close>,
  an \<^verbatim>\<open>int\<close> or a \<^verbatim>\<open>bool\<close>.
\<close>

datatype pyval = PyNone | PyStr string | PyInt int | PyBool bool

type_synonym config = "string \<rightharpoonup> pyval"

text \<open>
  The environment is a snapshot of \<^verbatim>\<open>os.environ\<close>, taken after \<^verbatim>\<open>load_dotenv\<close>
  has run at import time. \<^verbatim>\<open>os.getenv(k)\<close> gives \<^verbatim>\<open>None\<close> for an unset variable,
  \<^verbatim>\<open>os.getenv(k, d)\<close> gives \<open>d\<close>.
\<close>

type_synonym env = "string \<rightharpoonup> string"

definition getenv :: "env \<Rightarrow> string \<Rightarrow> pyval" where
  "getenv e k = (case e k of None \<Rightarrow> PyNone | Some v \<Rightarrow> PyStr v)"

definition getenv_default :: "env \<Rightarrow> string \<Rightarrow> string \<Rightarrow> string" where
  "getenv_default e k d = (case e k of None \<Rightarrow> d | Some v \<Rightarrow> v)"

text \<open>Truth value of a Python object, as \<^verbatim>\<open>if x\<close>, \<^verbatim>\<open>not x\<close> and \<^verbatim>\<open>all\<close> read it.\<close>

fun truthy :: "pyval \<Rightarrow> bool" where
  "truthy PyNone = False"
| "truthy (PyStr s) = (s \<noteq> [])"
| "truthy (PyInt n) = (n \<noteq> 0)"
| "truthy (PyBool b) = b"

section \<open>String operations used by the module\<close>

definition backslash :: char where
  "backslash = CHR 0x5C"

definition newline :: char where
  "newline = CHR 0x0A"

text \<open>\<^verbatim>\<open>s.startswith(p)\<close>.\<close>

definition startswith :: "string \<Rightarrow> string \<Rightarrow> bool" where
  "startswith s p = prefix p s"

text \<open>
  \<^verbatim>\<open>s.replace(old, new)\<close>: every non-overlapping occurrence of \<open>old\<close>, scanning from
  the left, is replaced. With an empty \<open>old\<close> Python puts \<open>new\<close> before every
  character and at the end.
\<close>

function replace :: "string \<Rightarrow> string \<Rightarrow> string \<Rightarrow> string" where
  "replace s old new =
     (if old = [] then new @ concat (map (\<lambda>c. c # new) s)
      else if s = [] then []
      else if prefix old s then new @ replace (drop (length old) s) old new
      else hd s # replace (tl s) old new)"
  by pat_completeness auto
termination
  by (relation "measure (\<lambda>(s, old, new). length s)") auto

text \<open>\<^verbatim>\<open>sub in s\<close> for strings.\<close>

fun contains :: "string \<Rightarrow> string \<Rightarrow> bool" where
  "contains sub [] = (sub = [])"
| "contains sub (c # cs) = (prefix sub (c # cs) \<or> contains sub cs)"

text \<open>
  \<^verbatim>\<open>s.split(sep)\<close> with a one-character separator: the pieces between the
  occurrences of \<open>sep\<close>, always at least one piece.
\<close>

fun split :: "char \<Rightarrow> string \<Rightarrow> string list" where
  "split sep [] = [[]]"
| "split sep (c # cs) =
     (if c = sep then [] # split sep cs
      else (case split sep cs of [] \<Rightarrow> [[c]] | p # ps \<Rightarrow> (c # p) # ps))"

text \<open>
  \<^verbatim>\<open>s.lower()\<close>. On the ASCII letters it maps \<open>A..Z\<close> to \<open>a..z\<close> and it leaves
  every other ASCII character alone. Python also lowercases letters beyond ASCII;
  the only two whose lower case contains an ASCII letter are U+212A (to \<open>k\<close>) and
  U+0130 (to \<open>i\<close> and a combining dot), and neither letter occurs in the word the
  module compares with, so the comparisons \<^verbatim>\<open>.lower() == "true"\<close> are not affected.
\<close>

definition in_range :: "char \<Rightarrow> char \<Rightarrow> char \<Rightarrow> bool" where
  "in_range lo hi c = ((of_char lo :: nat) \<le> of_char c \<and> (of_char c :: nat) \<le> of_char hi)"

definition lower_char :: "char \<Rightarrow> char" where
  "lower_char c =
     (if in_range (CHR ''A'') (CHR ''Z'') c then char_of (of_char c + (32 :: nat)) else c)"

definition lower :: "string \<Rightarrow> string" where
  "lower s = map lower_char s"

text \<open>
  \<^verbatim>\<open>int(s)\<close> on a string, base ten, as CPython 3.11 does it. The characters of
  the string are read first: a \<open>string\<close> of the model holds the bytes of the UTF-8
  encoding of the Python string, so the no-break space U+00A0 is the two bytes
  \<open>C2 A0\<close>. A byte sequence that is not well-formed UTF-8 stands for a Python string
  with lone surrogates (that is how \<^verbatim>\<open>os.getenv\<close> decodes such bytes), which \<^verbatim>\<open>int\<close>
  refuses.
\<close>

definition is_cont :: "int \<Rightarrow> bool" where
  "is_cont b = (0x80 \<le> b \<and> b < 0xC0)"

fun utf8_decode :: "int list \<Rightarrow> int list option" where
  "utf8_decode [] = Some []"
| "utf8_decode (b # bs) =
     (if b < 0x80 then map_option (Cons b) (utf8_decode bs)
      else if 0xC2 \<le> b \<and> b < 0xE0 then
        (case bs of
           b1 # r \<Rightarrow>
             if is_cont b1
             then map_option (Cons ((b - 0xC0) * 0x40 + (b1 - 0x80))) (utf8_decode r)
             else None
         | _ \<Rightarrow> None)
      else if 0xE0 \<le> b \<and> b < 0xF0 then
        (case bs of
           b1 # b2 # r \<Rightarrow>
             let cp = (b - 0xE0) * 0x1000 + (b1 - 0x80) * 0x40 + (b2 - 0x80) in
             if is_cont b1 \<and> is_cont b2 \<and> 0x800 \<le> cp \<and> \<not> (0xD800 \<le> cp \<and> cp < 0xE000)
             then map_option (Cons cp) (utf8_decode r)
             else None
         | _ \<Rightarrow> None)
      else if 0xF0 \<le> b \<and> b < 0xF5 then
        (case bs of
           b1 # b2 # b3 # r \<Rightarrow>
             let cp = (b - 0xF0) * 0x40000 + (b1 - 0x80) * 0x1000 + (b2 - 0x80) * 0x40 + (b3 - 0x80) in
             if is_cont b1 \<and> is_cont b2 \<and> is_cont b3 \<and> 0x10000 \<le> cp \<and> cp < 0x110000
             then map_option (Cons cp) (utf8_decode r)
             else None
         | _ \<Rightarrow> None)
      else None)"

text \<open>
  The characters beyond ASCII that \<^verbatim>\<open>int\<close> takes for white space, and the decimal
  digits of all scripts: the digits \<open>0\<close> to \<open>9\<close> of a script are ten consecutive code
  points, and the list holds the zero of each (Unicode 14.0, the tables of
  CPython 3.11).
\<close>

definition unicode_space :: "int \<Rightarrow> bool" where
  "unicode_space cp =
     (cp = 0x85 \<or> cp = 0xA0 \<or> cp = 0x1680 \<or> (0x2000 \<le> cp \<and> cp \<le> 0x200A)
      \<or> cp = 0x2028 \<or> cp = 0x2029 \<or> cp = 0x202F \<or> cp = 0x205F \<or> cp = 0x3000)"

definition decimal_zeros :: "int list" where
  "decimal_zeros =
     [
      0x30, 0x660, 0x6F0, 0x7C0, 0x966, 0x9E6, 0xA66, 0xAE6,
      0xB66, 0xBE6, 0xC66, 0xCE6, 0xD66, 0xDE6, 0xE50, 0xED0,
      0xF20, 0x1040, 0x1090, 0x17E0, 0x1810, 0x1946, 0x19D0, 0x1A80,
      0x1A90, 0x1B50, 0x1BB0, 0x1C40, 0x1C50, 0xA620, 0xA8D0, 0xA900,
      0xA9D0, 0xA9F0, 0xAA50, 0xABF0, 0xFF10, 0x104A0, 0x10D30, 0x11066,
      0x110F0, 0x11136, 0x111D0, 0x112F0, 0x11450, 0x114D0, 0x11650, 0x116C0,
      0x11730, 0x118E0, 0x11950, 0x11C50, 0x11D50, 0x11DA0, 0x16A60, 0x16AC0,
      0x16B50, 0x1D7CE, 0x1D7D8, 0x1D7E2, 0x1D7EC, 0x1D7F6, 0x1E140, 0x1E2F0,
      0x1E950, 0x1FBF0]"

definition decimal :: "int \<Rightarrow> int option" where
  "decimal cp = map_option (\<lambda>z. cp - z) (find (\<lambda>z. z \<le> cp \<and> cp < z + 10) decimal_zeros)"

text \<open>
  Before it parses, \<^verbatim>\<open>int\<close> turns every white-space character beyond ASCII into a
  space and every decimal digit into its ASCII digit; a character beyond ASCII that is
  neither becomes \<^verbatim>\<open>?\<close>, which no number contains.
\<close>

definition to_ascii :: "int \<Rightarrow> char" where
  "to_ascii cp =
     (if cp < 127 then char_of cp
      else if unicode_space cp then CHR '' ''
      else (case decimal cp of Some d \<Rightarrow> char_of (48 + d) | None \<Rightarrow> CHR ''?''))"

text \<open>
  The parser proper: surrounding ASCII white space is dropped, then comes an optional
  sign and one or more digits, where single underscores may stand between digits.
  Anything else raises \<^verbatim>\<open>ValueError\<close>, here \<open>None\<close>. So does a number of more than
  4300 digits, the limit an interpreter starts with (\<^verbatim>\<open>sys.get_int_max_str_digits()\<close>);
  the module does not change it. Only text that is otherwise a number can have that
  many digits in its run of digits, so the model counts the digits of the whole text.
\<close>

definition is_space :: "char \<Rightarrow> bool" where
  "is_space c = (c = CHR '' '' \<or> in_range (CHR 0x09) (CHR 0x0D) c)"

definition is_digit :: "char \<Rightarrow> bool" where
  "is_digit c = in_range (CHR ''0'') (CHR ''9'') c"

definition digit_value :: "char \<Rightarrow> int" where
  "digit_value c = int (of_char c - (48 :: nat))"

definition strip :: "string \<Rightarrow> string" where
  "strip s = rev (dropWhile is_space (rev (dropWhile is_space s)))"

fun digits :: "string \<Rightarrow> int \<Rightarrow> int option" where
  "digits [] acc = Some acc"
| "digits [c] acc = (if is_digit c then Some (acc * 10 + digit_value c) else None)"
| "digits (c # d # ds) acc =
     (if is_digit c then digits (d # ds) (acc * 10 + digit_value c)
      else if c = CHR ''_'' \<and> is_digit d then digits ds (acc * 10 + digit_value d)
      else None)"

definition unsigned :: "string \<Rightarrow> int option" where
  "unsigned s = (case s of [] \<Rightarrow> None | c # cs \<Rightarrow> if is_digit c then digits cs (digit_value c) else None)"

definition max_str_digits :: nat where
  "max_str_digits = 4300"

definition parse_int :: "string \<Rightarrow> int option" where
  "parse_int s =
     (if max_str_digits < length (filter is_digit s) then None
      else
        (case strip s of
           [] \<Rightarrow> None
         | c # cs \<Rightarrow>
             if c = CHR ''-'' then map_option uminus (unsigned cs)
             else if c = CHR ''+'' then unsigned cs
             else unsigned (c # cs)))"

definition py_int :: "string \<Rightarrow> int option" where
  "py_int s =
     (case utf8_decode (map of_char s) of
        None \<Rightarrow> None
      | Some cps \<Rightarrow> parse_int (map to_ascii cps))"

section \<open>The regular expression of the validator\<close>

text \<open>
  The fragment of Python's \<^verbatim>\<open>re\<close> syntax that the pattern of
  \<^verbatim>\<open>validate_table_name\<close> uses: the anchors \<^verbatim>\<open>^\<close> and \<^verbatim>\<open>$\<close>, a literal
  character, a character class, concatenation, \<^verbatim>\<open>?\<close> and \<^verbatim>\<open>+\<close>.
\<close>

datatype regex =
    Bol
  | Eol
  | Lit char
  | Class "char \<Rightarrow> bool"
  | Seq regex regex
  | Opt regex
  | Plus regex

text \<open>
  A position in the subject is the number of characters already consumed together
  with the rest of the subject. \<open>ends r p\<close> lists the positions at which a match
  of \<open>r\<close> that starts at \<open>p\<close> can end, the preferred one first (\<^verbatim>\<open>?\<close> and \<^verbatim>\<open>+\<close>
  are greedy). Without the \<^verbatim>\<open>MULTILINE\<close> flag \<^verbatim>\<open>^\<close> holds only at the start of
  the subject, and \<^verbatim>\<open>$\<close> holds at its end and also just before a newline that is
  its last character.
\<close>

type_synonym pos = "nat \<times> string"

text \<open>
  \<open>repeat f n p\<close>: one or more rounds of \<open>f\<close> from \<open>p\<close>. A round that consumes
  nothing is not repeated, so \<open>n\<close> rounds are enough when \<open>n\<close> exceeds the length
  of the rest of the subject.
\<close>

fun repeat :: "(pos \<Rightarrow> pos list) \<Rightarrow> nat \<Rightarrow> pos \<Rightarrow> pos list" where
  "repeat f 0 p = []"
| "repeat f (Suc n) p =
     concat (map (\<lambda>q. if length (snd q) < length (snd p) then repeat f n q @ [q] else [q]) (f p))"

fun ends :: "regex \<Rightarrow> pos \<Rightarrow> pos list" where
  "ends Bol (k, s) = (if k = 0 then [(k, s)] else [])"
| "ends Eol (k, s) = (if s = [] \<or> s = [newline] then [(k, s)] else [])"
| "ends (Lit c) (k, s) = (case s of [] \<Rightarrow> [] | x # xs \<Rightarrow> if x = c then [(Suc k, xs)] else [])"
| "ends (Class P) (k, s) = (case s of [] \<Rightarrow> [] | x # xs \<Rightarrow> if P x then [(Suc k, xs)] else [])"
| "ends (Seq r1 r2) p = concat (map (ends r2) (ends r1 p))"
| "ends (Opt r) p = ends r p @ [p]"
| "ends (Plus r) p = repeat (ends r) (Suc (length (snd p))) p"

text \<open>\<^verbatim>\<open>re.match(r, s)\<close> looks for a match that starts at the beginning of \<open>s\<close>.\<close>

definition re_match :: "regex \<Rightarrow> string \<Rightarrow> bool" where
  "re_match r s = (ends r (0, s) \<noteq> [])"

section \<open>\<^verbatim>\<open>validate_table_name\<close>\<close>

text \<open>The class \<^verbatim>\<open>[a-zA-Z0-9_]\<close>.\<close>

definition ident_char :: "char \<Rightarrow> bool" where
  "ident_char c =
     (in_range (CHR ''a'') (CHR ''z'') c \<or> in_range (CHR ''A'') (CHR ''Z'') c
      \<or> in_range (CHR ''0'') (CHR ''9'') c \<or> c = CHR ''_'')"

text \<open>The pattern \<^verbatim>\<open>^[a-zA-Z0-9_]+(\.[a-zA-Z0-9_]+)?$\<close>.\<close>

definition table_pattern :: regex where
  "table_pattern =
     Seq Bol (Seq (Plus (Class ident_char))
       (Seq (Opt (Seq (Lit (CHR ''.'')) (Plus (Class ident_char)))) Eol))"

definition validate_table_name :: "string \<Rightarrow> error + string" where
  "validate_table_name table_name =
     (if \<not> re_match table_pattern table_name
      then Inl (ValueError (''Invalid table name: '' @ table_name))
      else
        let parts = split (CHR ''.'') table_name in
        if length parts = 2
        then Inr (''['' @ parts ! 0 @ ''].['' @ parts ! 1 @ '']'')
        else Inr (''['' @ table_name @ '']''))"

section \<open>\<^verbatim>\<open>get_db_config\<close> and \<^verbatim>\<open>get_command\<close>\<close>

text \<open>
  The calls on the module's logger are part of what \<^verbatim>\<open>get_db_config\<close> does: the
  model returns the records it hands to the logger, in order, beside its result.
\<close>

datatype level = INFO | WARNING | ERROR

type_synonym log = "(level \<times> string) list"

text \<open>How an f-string prints a value (\<^verbatim>\<open>str(x)\<close>).\<close>

function show_nat :: "nat \<Rightarrow> string" where
  "show_nat n =
     (if n < 10 then [char_of (48 + n)] else show_nat (n div 10) @ [char_of (48 + n mod 10)])"
  by pat_completeness auto
termination
  by (relation "measure id") auto

fun py_str :: "pyval \<Rightarrow> string" where
  "py_str PyNone = ''None''"
| "py_str (PyStr s) = s"
| "py_str (PyInt n) = (if n < 0 then ''-'' @ show_nat (nat (- n)) else show_nat (nat n))"
| "py_str (PyBool b) = (if b then ''True'' else ''False'')"

definition localdb_prefix :: string where
  "localdb_prefix = ''(localdb)'' @ [backslash]"

definition azure_suffix :: string where
  "azure_suffix = ''.database.windows.net''"

definition missing_message :: string where
  "missing_message = ''Missing required database configuration''"

text \<open>
  Lines 35 to 46: the server name, with the LocalDB form \<^verbatim>\<open>(localdb)\name\<close>
  rewritten.
\<close>

definition resolve_server :: "env \<Rightarrow> string \<times> log" where
  "resolve_server e =
     (let server = getenv_default e ''MSSQL_SERVER'' ''localhost'';
          l = [(INFO, ''MSSQL_SERVER environment variable: ''
                        @ getenv_default e ''MSSQL_SERVER'' ''NOT SET''),
               (INFO, ''Using server: '' @ server)]
      in if startswith server localdb_prefix
         then
           let instance_name = replace server localdb_prefix [];
               server = ''.'' @ [backslash] @ instance_name
           in (server, l @ [(INFO, ''Detected LocalDB connection, converted to: '' @ server)])
         else (server, l))"

text \<open>Lines 61 to 66: a non-empty \<^verbatim>\<open>MSSQL_PORT\<close> that \<^verbatim>\<open>int\<close> accepts replaces the port.\<close>

definition resolve_port :: "env \<Rightarrow> config \<Rightarrow> config \<times> log" where
  "resolve_port e config =
     (case e ''MSSQL_PORT'' of
        None \<Rightarrow> (config, [])
      | Some port \<Rightarrow>
          if port = [] then (config, [])
          else
            (case py_int port of
               Some n \<Rightarrow> (config(''port'' \<mapsto> PyInt n), [])
             | None \<Rightarrow>
                 (config,
                  [(WARNING, ''Invalid MSSQL_PORT value: '' @ port @ ''. Using default port.'')])))"

text \<open>
  Lines 70 to 78, where \<open>server\<close> is the value stored under \<^verbatim>\<open>config["server"]\<close>.
\<close>

definition resolve_encrypt :: "env \<Rightarrow> string \<Rightarrow> config \<Rightarrow> config" where
  "resolve_encrypt e server config =
     (if server \<noteq> [] \<and> contains azure_suffix server
      then
        let config = config(''tds_version'' \<mapsto> PyStr ''7.4'') in
        if lower (getenv_default e ''MSSQL_ENCRYPT'' ''true'') = ''true''
        then config(''encrypt'' \<mapsto> PyBool True)
        else config
      else
        let encrypt_str = getenv_default e ''MSSQL_ENCRYPT'' ''false'' in
        config(''encrypt'' \<mapsto> PyBool (lower encrypt_str = ''true'')))"

text \<open>
  Lines 81 to 101, where \<open>user\<close>, \<open>password\<close> and \<open>database\<close> are the values
  stored under these keys of \<open>config\<close>. \<^verbatim>\<open>config.pop(k, None)\<close> removes the key.
\<close>

definition check_auth :: "env \<Rightarrow> pyval \<Rightarrow> pyval \<Rightarrow> pyval \<Rightarrow> config \<Rightarrow> log \<times> (error + config)" where
  "check_auth e user password database config =
     (let use_windows_auth = (lower (getenv_default e ''MSSQL_WINDOWS_AUTH'' ''false'') = ''true'') in
      if use_windows_auth
      then
        if \<not> truthy database
        then ([(ERROR, ''MSSQL_DATABASE is required'')], Inl (ValueError missing_message))
        else
          ([(INFO, ''Using Windows Authentication'')],
           Inr (config(''user'' := None, ''password'' := None)))
      else
        let l = [(INFO, ''Checking required vars: user='' @ py_str (PyBool (truthy user))
                          @ '', password='' @ py_str (PyBool (truthy password))
                          @ '', database='' @ py_str (PyBool (truthy database)))]
        in
        if \<not> (truthy user \<and> truthy password \<and> truthy database)
        then
          (l @ [(ERROR, ''Missing required database configuration. Please check environment variables:''),
                (ERROR, ''MSSQL_USER, MSSQL_PASSWORD, and MSSQL_DATABASE are required''),
                (ERROR, ''Current values: USER='' @ py_str user
                          @ '', DATABASE='' @ py_str database
                          @ '', PASSWORD='' @ (if truthy password then ''***'' else py_str PyNone))],
           Inl (ValueError missing_message))
        else (l, Inr config))"

text \<open>
  The whole function. The dictionary literal of lines 48 to 54 stores the server and
  the four variables read there; the debug records of lines 57 to 59 follow.
\<close>

definition get_db_config :: "env \<Rightarrow> log \<times> (error + config)" where
  "get_db_config e =
     (let (server, log1) = resolve_server e;
          user = getenv e ''MSSQL_USER'';
          password = getenv e ''MSSQL_PASSWORD'';
          database = getenv e ''MSSQL_DATABASE'';
          config = [''server'' \<mapsto> PyStr server,
                    ''user'' \<mapsto> user,
                    ''password'' \<mapsto> password,
                    ''database'' \<mapsto> database,
                    ''port'' \<mapsto> PyStr (getenv_default e ''MSSQL_PORT'' ''1433'')];
          log2 = [(INFO, ''MSSQL_USER: '' @ py_str user),
                  (INFO, ''MSSQL_DATABASE: '' @ py_str database),
                  (INFO, ''MSSQL_PASSWORD: '' @ (if truthy password then ''SET'' else ''NOT SET''))];
          (config, log3) = resolve_port e config;
          config = resolve_encrypt e server config;
          (log4, result) = check_auth e user password database config
      in (log1 @ log2 @ log3 @ log4, result))"

definition get_command :: "env \<Rightarrow> string" where
  "get_command e = getenv_default e ''MSSQL_COMMAND'' ''execute_sql''"

section \<open>Facts about the string operations\<close>

lemma contains_sublist: "contains sub s = sublist sub s"
  by (induction s) (simp_all add: sublist_Cons_right)

lemma lower_true: "lower ''true'' = ''true''"
  by (simp add: lower_def lower_char_def in_range_def)

lemma lower_false: "lower ''false'' \<noteq> ''true''"
  by (simp add: lower_def lower_char_def in_range_def)

text \<open>
  \<^verbatim>\<open>int\<close> at work: ASCII text, white space and digits beyond ASCII in their UTF-8
  encoding, text that is not a number, bytes that are not UTF-8, and the limit on
  the number of digits.
\<close>

lemma py_int_examples:
  "py_int ''1434'' = Some 1434"
  "py_int '' -1_000 '' = Some (- 1000)"
  "py_int ([CHR 0xC2, CHR 0xA0] @ ''1433'') = Some 1433"
  "py_int [CHR 0xD9, CHR 0xA1, CHR 0xD9, CHR 0xA2] = Some 12"
  "py_int [CHR 0xEF, CHR 0xBC, CHR 0x91, CHR 0xE3, CHR 0x80, CHR 0x80] = Some 1"
  "py_int ''notanumber'' = None"
  "py_int ''1__0'' = None"
  "py_int ''- 5'' = None"
  "py_int [CHR 0xA0, CHR ''7''] = None"
  "py_int [CHR 0xC0, CHR 0xB1] = None"
  by code_simp+

lemma py_int_empty: "py_int [] = None"
  by (simp add: py_int_def parse_int_def strip_def)

lemma utf8_decode_ascii: "\<forall>b\<in>set bs. b < 0x80 \<Longrightarrow> utf8_decode bs = Some bs"
  by (induction bs) simp_all

lemma to_ascii_one: "to_ascii (of_char (CHR ''1'')) = CHR ''1''"
  by code_simp

lemma is_digit_one: "is_digit (CHR ''1'')"
  by code_simp

lemma py_int_long:
  assumes "4300 < n"
  shows "py_int (replicate n (CHR ''1'')) = None"
proof -
  have "utf8_decode (map of_char (replicate n (CHR ''1''))) = Some (replicate n (of_char (CHR ''1'')))"
    by (subst utf8_decode_ascii) simp_all
  then show ?thesis
    using assms
    by (simp add: py_int_def parse_int_def max_str_digits_def to_ascii_one is_digit_one
        del: of_char_Char)
qed

section \<open>Facts about the stages of \<^verbatim>\<open>get_db_config\<close>\<close>

lemma snd_get_db_config:
  "snd (get_db_config e) =
     snd (check_auth e (getenv e ''MSSQL_USER'') (getenv e ''MSSQL_PASSWORD'') (getenv e ''MSSQL_DATABASE'')
       (resolve_encrypt e (fst (resolve_server e))
         (fst (resolve_port e
           [''server'' \<mapsto> PyStr (fst (resolve_server e)),
            ''user'' \<mapsto> getenv e ''MSSQL_USER'',
            ''password'' \<mapsto> getenv e ''MSSQL_PASSWORD'',
            ''database'' \<mapsto> getenv e ''MSSQL_DATABASE'',
            ''port'' \<mapsto> PyStr (getenv_default e ''MSSQL_PORT'' ''1433'')]))))"
  by (simp add: get_db_config_def Let_def split: prod.splits)

lemma resolve_port_other: "k \<noteq> ''port'' \<Longrightarrow> fst (resolve_port e c) k = c k"
  by (simp add: resolve_port_def split: option.splits)

lemma resolve_port_port:
  "fst (resolve_port e c) ''port'' =
     (case e ''MSSQL_PORT'' of
        None \<Rightarrow> c ''port''
      | Some p \<Rightarrow> if p = [] then c ''port'' else (case py_int p of None \<Rightarrow> c ''port'' | Some n \<Rightarrow> Some (PyInt n)))"
  by (simp add: resolve_port_def split: option.splits)

lemma resolve_encrypt_other:
  "k \<noteq> ''tds_version'' \<Longrightarrow> k \<noteq> ''encrypt'' \<Longrightarrow> resolve_encrypt e s c k = c k"
  by (simp add: resolve_encrypt_def Let_def)

lemma resolve_encrypt_tds:
  "resolve_encrypt e s c ''tds_version'' =
     (if sublist azure_suffix s then Some (PyStr ''7.4'') else c ''tds_version'')"
  by (auto simp add: resolve_encrypt_def Let_def contains_sublist azure_suffix_def)

lemma resolve_encrypt_encrypt:
  "resolve_encrypt e s c ''encrypt'' =
     (if sublist azure_suffix s
      then (if lower (getenv_default e ''MSSQL_ENCRYPT'' ''true'') = ''true''
            then Some (PyBool True) else c ''encrypt'')
      else Some (PyBool (lower (getenv_default e ''MSSQL_ENCRYPT'' ''false'') = ''true'')))"
  by (auto simp add: resolve_encrypt_def Let_def contains_sublist azure_suffix_def)

lemma check_auth_result:
  "snd (check_auth e u p d c) =
     (if lower (getenv_default e ''MSSQL_WINDOWS_AUTH'' ''false'') = ''true''
      then (if truthy d then Inr (c(''user'' := None, ''password'' := None))
            else Inl (ValueError missing_message))
      else (if truthy u \<and> truthy p \<and> truthy d then Inr c
            else Inl (ValueError missing_message)))"
  by (simp add: check_auth_def Let_def)

lemma truthy_getenv: "truthy (getenv e k) = (\<exists>v. e k = Some v \<and> v \<noteq> [])"
  by (simp add: getenv_def split: option.splits)

lemma get_db_config_success:
  assumes "get_db_config e = (lg, Inr cfg)"
  shows "cfg =
     (let c = resolve_encrypt e (fst (resolve_server e))
         (fst (resolve_port e
           [''server'' \<mapsto> PyStr (fst (resolve_server e)),
            ''user'' \<mapsto> getenv e ''MSSQL_USER'',
            ''password'' \<mapsto> getenv e ''MSSQL_PASSWORD'',
            ''database'' \<mapsto> getenv e ''MSSQL_DATABASE'',
            ''port'' \<mapsto> PyStr (getenv_default e ''MSSQL_PORT'' ''1433'')]))
      in if lower (getenv_default e ''MSSQL_WINDOWS_AUTH'' ''false'') = ''true''
         then c(''user'' := None, ''password'' := None) else c)"
proof -
  from assms have "snd (get_db_config e) = Inr cfg" by simp
  then show ?thesis
    unfolding snd_get_db_config check_auth_result Let_def
    by (simp split: if_splits)
qed

lemma success_server:
  "get_db_config e = (lg, Inr cfg) \<Longrightarrow> cfg ''server'' = Some (PyStr (fst (resolve_server e)))"
  by (drule get_db_config_success) (simp add: Let_def resolve_encrypt_other resolve_port_other)

lemma success_tds:
  "get_db_config e = (lg, Inr cfg) \<Longrightarrow>
   cfg ''tds_version'' = (if sublist azure_suffix (fst (resolve_server e)) then Some (PyStr ''7.4'') else None)"
  by (drule get_db_config_success) (simp add: Let_def resolve_encrypt_tds resolve_port_other)

lemma success_encrypt:
  "get_db_config e = (lg, Inr cfg) \<Longrightarrow>
   cfg ''encrypt'' =
     (if sublist azure_suffix (fst (resolve_server e))
      then (if lower (getenv_default e ''MSSQL_ENCRYPT'' ''true'') = ''true''
            then Some (PyBool True) else None)
      else Some (PyBool (lower (getenv_default e ''MSSQL_ENCRYPT'' ''false'') = ''true'')))"
  by (drule get_db_config_success) (simp add: Let_def resolve_encrypt_encrypt resolve_port_other)

lemma success_port:
  "get_db_config e = (lg, Inr cfg) \<Longrightarrow>
   cfg ''port'' =
     (case e ''MSSQL_PORT'' of
        None \<Rightarrow> Some (PyStr ''1433'')
      | Some p \<Rightarrow> if p = [] then Some (PyStr p)
                  else (case py_int p of None \<Rightarrow> Some (PyStr p) | Some n \<Rightarrow> Some (PyInt n)))"
  by (drule get_db_config_success)
     (simp add: Let_def resolve_encrypt_other resolve_port_port getenv_default_def split: option.splits)

lemma isl_get_db_config:
  "isl (snd (get_db_config e)) =
     (\<not> (if lower (getenv_default e ''MSSQL_WINDOWS_AUTH'' ''false'') = ''true''
         then truthy (getenv e ''MSSQL_DATABASE'')
         else truthy (getenv e ''MSSQL_USER'') \<and> truthy (getenv e ''MSSQL_PASSWORD'')
              \<and> truthy (getenv e ''MSSQL_DATABASE'')))"
  unfolding snd_get_db_config check_auth_result by auto

lemma failure_message:
  "isl (snd (get_db_config e)) \<Longrightarrow> snd (get_db_config e) = Inl (ValueError missing_message)"
  unfolding snd_get_db_config check_auth_result by (auto split: if_splits)

lemma success_obtain:
  "\<not> isl (snd (get_db_config e)) \<Longrightarrow> \<exists>lg cfg. get_db_config e = (lg, Inr cfg)"
  by (cases "get_db_config e"; cases "snd (get_db_config e)") auto

lemma not_truthy_getenv: "(\<not> truthy (getenv e k)) = (e k = None \<or> e k = Some [])"
  by (auto simp add: getenv_def split: option.splits)

lemmas eval_config =
  snd_get_db_config check_auth_result resolve_server_def resolve_port_def resolve_encrypt_def
  getenv_def getenv_default_def startswith_def localdb_prefix_def azure_suffix_def backslash_def
  missing_message_def Let_def lower_def lower_char_def in_range_def


lemma fst_get_db_config:
  "fst (get_db_config e) =
     snd (resolve_server e)
     @ [(INFO, ''MSSQL_USER: '' @ py_str (getenv e ''MSSQL_USER'')),
        (INFO, ''MSSQL_DATABASE: '' @ py_str (getenv e ''MSSQL_DATABASE'')),
        (INFO, ''MSSQL_PASSWORD: '' @ (if truthy (getenv e ''MSSQL_PASSWORD'') then ''SET'' else ''NOT SET''))]
     @ snd (resolve_port e
           [''server'' \<mapsto> PyStr (fst (resolve_server e)),
            ''user'' \<mapsto> getenv e ''MSSQL_USER'',
            ''password'' \<mapsto> getenv e ''MSSQL_PASSWORD'',
            ''database'' \<mapsto> getenv e ''MSSQL_DATABASE'',
            ''port'' \<mapsto> PyStr (getenv_default e ''MSSQL_PORT'' ''1433'')])
     @ fst (check_auth e (getenv e ''MSSQL_USER'') (getenv e ''MSSQL_PASSWORD'') (getenv e ''MSSQL_DATABASE'')
       (resolve_encrypt e (fst (resolve_server e))
         (fst (resolve_port e
           [''server'' \<mapsto> PyStr (fst (resolve_server e)),
            ''user'' \<mapsto> getenv e ''MSSQL_USER'',
            ''password'' \<mapsto> getenv e ''MSSQL_PASSWORD'',
            ''database'' \<mapsto> getenv e ''MSSQL_DATABASE'',
            ''port'' \<mapsto> PyStr (getenv_default e ''MSSQL_PORT'' ''1433'')]))))"
  by (simp add: get_db_config_def Let_def split: prod.splits)

lemma check_auth_sql_failure_log:
  assumes "lower (getenv_default e ''MSSQL_WINDOWS_AUTH'' ''false'') \<noteq> ''true''"
    and "\<not> (truthy u \<and> truthy p \<and> truthy d)"
  shows "last (fst (check_auth e u p d c)) =
     (ERROR, ''Current values: USER='' @ py_str u @ '', DATABASE='' @ py_str d
        @ '', PASSWORD='' @ (if truthy p then ''***'' else ''None''))"
    and "fst (check_auth e u p d c) \<noteq> []"
  using assms by (auto simp add: check_auth_def Let_def)

lemma resolve_server_no_warning: "(WARNING, m) \<notin> set (snd (resolve_server e))"
  by (simp add: resolve_server_def Let_def)

lemma check_auth_no_warning: "(WARNING, m) \<notin> set (fst (check_auth e u p d c))"
  by (simp add: check_auth_def Let_def)

lemma resolve_port_log:
  "snd (resolve_port e c) =
     (case e ''MSSQL_PORT'' of
        None \<Rightarrow> []
      | Some p \<Rightarrow> if p \<noteq> [] \<and> py_int p = None
                  then [(WARNING, ''Invalid MSSQL_PORT value: '' @ p @ ''. Using default port.'')]
                  else [])"
  by (simp add: resolve_port_def split: option.splits)

lemma warnings_get_db_config:
  "((WARNING, m) \<in> set (fst (get_db_config e))) =
     (\<exists>p. e ''MSSQL_PORT'' = Some p \<and> p \<noteq> [] \<and> py_int p = None
          \<and> m = ''Invalid MSSQL_PORT value: '' @ p @ ''. Using default port.'')"
  unfolding fst_get_db_config
  by (auto simp add: resolve_server_no_warning check_auth_no_warning resolve_port_log
      split: option.splits)

lemma foo_is_azure: "\<exists>p q. ''foo.database.windows.net'' = p @ ''.database.windows.net'' @ q"
  by (rule exI [of _ "''foo''"], rule exI [of _ "[]"]) simp

lemma example_is_not_azure: "\<not> (\<exists>p q. ''db.example.org'' = p @ ''.database.windows.net'' @ q)"
proof
  assume "\<exists>p q. ''db.example.org'' = p @ ''.database.windows.net'' @ q"
  then have "sublist azure_suffix ''db.example.org''"
    by (simp add: sublist_def azure_suffix_def)
  then show False
    by (simp add: contains_sublist [symmetric] azure_suffix_def)
qed

section \<open>The command name\<close>

text \<open>
  C9. \<^verbatim>\<open>get_command\<close> returns the value of \<^verbatim>\<open>MSSQL_COMMAND\<close> when the variable is
  set, whatever the value is, and \<^verbatim>\<open>execute_sql\<close> when it is not set. The function
  is total: it has no error result.
\<close>

theorem get_command_env_or_default:
  "(e ''MSSQL_COMMAND'' = Some v \<longrightarrow> get_command e = v)
   \<and> (e ''MSSQL_COMMAND'' = None \<longrightarrow> get_command e = ''execute_sql'')"
  by (simp add: get_command_def getenv_default_def)

theorem get_command_env_or_default_witness:
  "get_command (map_of [(''MSSQL_COMMAND'', ''run_query'')]) = ''run_query''
   \<and> get_command (map_of []) = ''execute_sql''"
  using get_command_env_or_default [of "map_of [(''MSSQL_COMMAND'', ''run_query'')]" "''run_query''"]
    get_command_env_or_default [of "map_of []" "''x''"]
  by simp

section \<open>The configuration record\<close>

text \<open>
  C8. In every record that \<^verbatim>\<open>get_db_config\<close> returns, the key \<^verbatim>\<open>tds_version\<close> is
  present exactly when the server string stored under \<^verbatim>\<open>server\<close> contains
  \<^verbatim>\<open>.database.windows.net\<close>, and then its value is the string \<^verbatim>\<open>7.4\<close>.
\<close>

theorem tds_version_iff_azure:
  assumes "get_db_config e = (lg, Inr cfg)"
  shows "\<exists>server. cfg ''server'' = Some (PyStr server)
     \<and> cfg ''tds_version'' =
         (if (\<exists>p q. server = p @ ''.database.windows.net'' @ q) then Some (PyStr ''7.4'') else None)"
  using success_server [OF assms] success_tds [OF assms]
  by (simp add: sublist_def azure_suffix_def)

theorem tds_version_iff_azure_witness:
  "(\<exists>lg cfg. get_db_config (map_of [(''MSSQL_SERVER'', ''foo.database.windows.net''),
        (''MSSQL_USER'', ''u''), (''MSSQL_PASSWORD'', ''p''), (''MSSQL_DATABASE'', ''d'')]) = (lg, Inr cfg)
      \<and> cfg ''server'' = Some (PyStr ''foo.database.windows.net'')
      \<and> cfg ''tds_version'' = Some (PyStr ''7.4''))
   \<and> (\<exists>lg cfg. get_db_config (map_of [(''MSSQL_SERVER'', ''db.example.org''),
        (''MSSQL_USER'', ''u''), (''MSSQL_PASSWORD'', ''p''), (''MSSQL_DATABASE'', ''d'')]) = (lg, Inr cfg)
      \<and> cfg ''server'' = Some (PyStr ''db.example.org'')
      \<and> cfg ''tds_version'' = None)"
proof -
  let ?E1 = "map_of [(''MSSQL_SERVER'', ''foo.database.windows.net''),
        (''MSSQL_USER'', ''u''), (''MSSQL_PASSWORD'', ''p''), (''MSSQL_DATABASE'', ''d'')]"
  let ?E2 = "map_of [(''MSSQL_SERVER'', ''db.example.org''),
        (''MSSQL_USER'', ''u''), (''MSSQL_PASSWORD'', ''p''), (''MSSQL_DATABASE'', ''d'')]"
  have "\<not> isl (snd (get_db_config ?E1))"
    by (simp add: isl_get_db_config getenv_def getenv_default_def lower_false)
  then obtain lg1 cfg1 where r1: "get_db_config ?E1 = (lg1, Inr cfg1)"
    using success_obtain by blast
  have s1: "cfg1 ''server'' = Some (PyStr ''foo.database.windows.net'')"
    using success_server [OF r1] by (simp add: eval_config)
  have "\<not> isl (snd (get_db_config ?E2))"
    by (simp add: isl_get_db_config getenv_def getenv_default_def lower_false)
  then obtain lg2 cfg2 where r2: "get_db_config ?E2 = (lg2, Inr cfg2)"
    using success_obtain by blast
  have s2: "cfg2 ''server'' = Some (PyStr ''db.example.org'')"
    using success_server [OF r2] by (simp add: eval_config)
  have a1: "\<exists>p q. ''foo.database.windows.net'' = p @ ''.database.windows.net'' @ q"
    by (rule exI [of _ "''foo''"], rule exI [of _ "''''"]) simp
  have a2: "\<not> (\<exists>p q. ''db.example.org'' = p @ ''.database.windows.net'' @ q)"
  proof
    assume "\<exists>p q. ''db.example.org'' = p @ ''.database.windows.net'' @ q"
    then have "sublist azure_suffix ''db.example.org''"
      by (simp add: sublist_def azure_suffix_def)
    then show False
      by (simp add: contains_sublist [symmetric] azure_suffix_def)
  qed
  from tds_version_iff_azure [OF r1] s1 a1 have t1: "cfg1 ''tds_version'' = Some (PyStr ''7.4'')"
    by auto
  from tds_version_iff_azure [OF r2] s2 a2 have t2: "cfg2 ''tds_version'' = None"
    by auto
  from r1 s1 t1 r2 s2 t2 show ?thesis by blast
qed


text \<open>
  C6. With \<^verbatim>\<open>MSSQL_WINDOWS_AUTH\<close> set to \<^verbatim>\<open>true\<close> (in any letter case),
  \<^verbatim>\<open>get_db_config\<close> fails exactly when \<^verbatim>\<open>MSSQL_DATABASE\<close> is unset or empty, the
  error being the \<^verbatim>\<open>ValueError\<close> for a missing configuration; and a record it returns
  has neither a \<^verbatim>\<open>user\<close> key nor a \<^verbatim>\<open>password\<close> key, whatever \<^verbatim>\<open>MSSQL_USER\<close> and
  \<^verbatim>\<open>MSSQL_PASSWORD\<close> hold.
\<close>

theorem windows_auth_requires_database_only:
  assumes "e ''MSSQL_WINDOWS_AUTH'' = Some w" and "lower w = ''true''"
  shows "isl (snd (get_db_config e)) = (e ''MSSQL_DATABASE'' = None \<or> e ''MSSQL_DATABASE'' = Some [])
     \<and> (isl (snd (get_db_config e)) \<longrightarrow>
          snd (get_db_config e) = Inl (ValueError ''Missing required database configuration''))
     \<and> (\<forall>lg cfg. get_db_config e = (lg, Inr cfg) \<longrightarrow> cfg ''user'' = None \<and> cfg ''password'' = None)"
proof -
  from assms have w: "lower (getenv_default e ''MSSQL_WINDOWS_AUTH'' ''false'') = ''true''"
    by (simp add: getenv_default_def)
  have "isl (snd (get_db_config e)) = (e ''MSSQL_DATABASE'' = None \<or> e ''MSSQL_DATABASE'' = Some [])"
    using w by (simp add: isl_get_db_config not_truthy_getenv)
  moreover have "isl (snd (get_db_config e)) \<longrightarrow>
      snd (get_db_config e) = Inl (ValueError ''Missing required database configuration'')"
    using failure_message [of e] by (simp add: missing_message_def)
  moreover have "\<forall>lg cfg. get_db_config e = (lg, Inr cfg) \<longrightarrow> cfg ''user'' = None \<and> cfg ''password'' = None"
  proof (intro allI impI)
    fix lg cfg
    assume "get_db_config e = (lg, Inr cfg)"
    from get_db_config_success [OF this] w show "cfg ''user'' = None \<and> cfg ''password'' = None"
      by (simp add: Let_def)
  qed
  ultimately show ?thesis by blast
qed

theorem windows_auth_requires_database_only_witness:
  "lower ''true'' = ''true''
   \<and> (\<exists>lg cfg. get_db_config (map_of [(''MSSQL_WINDOWS_AUTH'', ''true''), (''MSSQL_DATABASE'', ''d''),
          (''MSSQL_USER'', ''u''), (''MSSQL_PASSWORD'', ''p'')]) = (lg, Inr cfg)
        \<and> cfg ''user'' = None \<and> cfg ''password'' = None)
   \<and> snd (get_db_config (map_of [(''MSSQL_WINDOWS_AUTH'', ''true''), (''MSSQL_USER'', ''u''),
          (''MSSQL_PASSWORD'', ''p'')])) = Inl (ValueError ''Missing required database configuration'')"
proof -
  let ?E = "map_of [(''MSSQL_WINDOWS_AUTH'', ''true''), (''MSSQL_DATABASE'', ''d''),
          (''MSSQL_USER'', ''u''), (''MSSQL_PASSWORD'', ''p'')]"
  let ?F = "map_of [(''MSSQL_WINDOWS_AUTH'', ''true''), (''MSSQL_USER'', ''u''),
          (''MSSQL_PASSWORD'', ''p'')]"
  have e: "?E ''MSSQL_WINDOWS_AUTH'' = Some ''true''" by simp
  have f: "?F ''MSSQL_WINDOWS_AUTH'' = Some ''true''" by simp
  note E = windows_auth_requires_database_only [of ?E "''true''", OF e lower_true]
  note F = windows_auth_requires_database_only [of ?F "''true''", OF f lower_true]
  from E have "\<not> isl (snd (get_db_config ?E))" by simp
  then obtain lg cfg where r: "get_db_config ?E = (lg, Inr cfg)"
    using success_obtain by blast
  with E have "cfg ''user'' = None \<and> cfg ''password'' = None" by blast
  moreover from F have "snd (get_db_config ?F) = Inl (ValueError ''Missing required database configuration'')"
    by simp
  ultimately show ?thesis using r lower_true by blast
qed

text \<open>
  C5, as the code has it. Without Windows authentication (\<^verbatim>\<open>MSSQL_WINDOWS_AUTH\<close> unset, or
  set to a value whose lower case is not \<^verbatim>\<open>true\<close>), \<^verbatim>\<open>get_db_config\<close> fails exactly when
  one of \<^verbatim>\<open>MSSQL_USER\<close>, \<^verbatim>\<open>MSSQL_PASSWORD\<close>, \<^verbatim>\<open>MSSQL_DATABASE\<close> is unset or empty. The
  error raised is always the \<^verbatim>\<open>ValueError\<close> with the fixed message
  \<^verbatim>\<open>Missing required database configuration\<close>; what tells the fields apart is the last
  record handed to the logger, which prints the user, the database and whether a
  password is set.
\<close>

theorem sql_auth_requires_all:
  assumes "lower (getenv_default e ''MSSQL_WINDOWS_AUTH'' ''false'') \<noteq> ''true''"
  shows "isl (snd (get_db_config e)) =
       ((e ''MSSQL_USER'' = None \<or> e ''MSSQL_USER'' = Some [])
        \<or> (e ''MSSQL_PASSWORD'' = None \<or> e ''MSSQL_PASSWORD'' = Some [])
        \<or> (e ''MSSQL_DATABASE'' = None \<or> e ''MSSQL_DATABASE'' = Some []))
     \<and> (isl (snd (get_db_config e)) \<longrightarrow>
          snd (get_db_config e) = Inl (ValueError ''Missing required database configuration'')
          \<and> last (fst (get_db_config e)) =
             (ERROR, ''Current values: USER='' @ py_str (getenv e ''MSSQL_USER'')
                @ '', DATABASE='' @ py_str (getenv e ''MSSQL_DATABASE'')
                @ '', PASSWORD='' @ (if truthy (getenv e ''MSSQL_PASSWORD'') then ''***'' else ''None'')))"
proof -
  have a: "isl (snd (get_db_config e)) =
       ((e ''MSSQL_USER'' = None \<or> e ''MSSQL_USER'' = Some [])
        \<or> (e ''MSSQL_PASSWORD'' = None \<or> e ''MSSQL_PASSWORD'' = Some [])
        \<or> (e ''MSSQL_DATABASE'' = None \<or> e ''MSSQL_DATABASE'' = Some []))"
    using assms by (simp add: isl_get_db_config not_truthy_getenv [symmetric])
  have b: "snd (get_db_config e) = Inl (ValueError ''Missing required database configuration'')"
    if "isl (snd (get_db_config e))"
    using failure_message [OF that] by (simp add: missing_message_def)
  have c: "last (fst (get_db_config e)) =
             (ERROR, ''Current values: USER='' @ py_str (getenv e ''MSSQL_USER'')
                @ '', DATABASE='' @ py_str (getenv e ''MSSQL_DATABASE'')
                @ '', PASSWORD='' @ (if truthy (getenv e ''MSSQL_PASSWORD'') then ''***'' else ''None''))"
    if "isl (snd (get_db_config e))"
  proof -
    from that assms have m: "\<not> (truthy (getenv e ''MSSQL_USER'') \<and> truthy (getenv e ''MSSQL_PASSWORD'')
        \<and> truthy (getenv e ''MSSQL_DATABASE''))"
      by (simp add: isl_get_db_config)
    show ?thesis
      unfolding fst_get_db_config
      using check_auth_sql_failure_log [OF assms m]
      by (simp del: append_assoc add: append_assoc [symmetric])
  qed
  from a b c show ?thesis by blast
qed

theorem sql_auth_requires_all_witness:
  "lower (getenv_default (map_of [(''MSSQL_PASSWORD'', ''p''), (''MSSQL_DATABASE'', ''d'')])
       ''MSSQL_WINDOWS_AUTH'' ''false'') \<noteq> ''true''
   \<and> snd (get_db_config (map_of [(''MSSQL_PASSWORD'', ''p''), (''MSSQL_DATABASE'', ''d'')]))
       = Inl (ValueError ''Missing required database configuration'')
   \<and> last (fst (get_db_config (map_of [(''MSSQL_PASSWORD'', ''p''), (''MSSQL_DATABASE'', ''d'')])))
       = (ERROR, ''Current values: USER=None, DATABASE=d, PASSWORD=***'')
   \<and> \<not> isl (snd (get_db_config (map_of [(''MSSQL_USER'', ''u''), (''MSSQL_PASSWORD'', ''p''),
         (''MSSQL_DATABASE'', ''d''), (''MSSQL_WINDOWS_AUTH'', ''false'')])))"
proof -
  let ?E = "map_of [(''MSSQL_PASSWORD'', ''p''), (''MSSQL_DATABASE'', ''d'')]"
  let ?F = "map_of [(''MSSQL_USER'', ''u''), (''MSSQL_PASSWORD'', ''p''),
         (''MSSQL_DATABASE'', ''d''), (''MSSQL_WINDOWS_AUTH'', ''false'')]"
  have e: "lower (getenv_default ?E ''MSSQL_WINDOWS_AUTH'' ''false'') \<noteq> ''true''"
    by (simp add: getenv_default_def lower_false)
  have f: "lower (getenv_default ?F ''MSSQL_WINDOWS_AUTH'' ''false'') \<noteq> ''true''"
    by (simp add: getenv_default_def lower_false)
  from sql_auth_requires_all [OF e] sql_auth_requires_all [OF f] e show ?thesis
    by (simp add: getenv_def)
qed

text \<open>
  C5 as the specification states it says that the error reports which fields are
  missing. The error value is the same whichever of the three fields is missing.
\<close>

theorem missing_error_names_no_field:
  "snd (get_db_config (map_of [(''MSSQL_PASSWORD'', ''p''), (''MSSQL_DATABASE'', ''d'')]))
     = Inl (ValueError ''Missing required database configuration'')
   \<and> snd (get_db_config (map_of [(''MSSQL_USER'', ''u''), (''MSSQL_DATABASE'', ''d'')]))
     = Inl (ValueError ''Missing required database configuration'')
   \<and> snd (get_db_config (map_of [(''MSSQL_USER'', ''u''), (''MSSQL_PASSWORD'', ''p'')]))
     = Inl (ValueError ''Missing required database configuration'')"
  by (simp add: snd_get_db_config check_auth_result getenv_def getenv_default_def lower_false
      missing_message_def)

text \<open>
  C4, as the code has it. In a record that \<^verbatim>\<open>get_db_config\<close> returns, for a server that
  does not contain \<^verbatim>\<open>.database.windows.net\<close> the key \<^verbatim>\<open>encrypt\<close> is present and holds
  whether the lower case of \<^verbatim>\<open>MSSQL_ENCRYPT\<close> (default \<^verbatim>\<open>false\<close>) is \<^verbatim>\<open>true\<close>. For a
  server that contains it, \<^verbatim>\<open>encrypt\<close> is present with the value \<^verbatim>\<open>True\<close> when the
  lower case of \<^verbatim>\<open>MSSQL_ENCRYPT\<close> (default \<^verbatim>\<open>true\<close>) is \<^verbatim>\<open>true\<close>, and the record has
  no \<^verbatim>\<open>encrypt\<close> key otherwise.
\<close>

theorem encrypt_by_target:
  assumes "get_db_config e = (lg, Inr cfg)"
  shows "\<exists>server. cfg ''server'' = Some (PyStr server)
     \<and> cfg ''encrypt'' =
         (if (\<exists>p q. server = p @ ''.database.windows.net'' @ q)
          then (if lower (getenv_default e ''MSSQL_ENCRYPT'' ''true'') = ''true''
                then Some (PyBool True) else None)
          else Some (PyBool (lower (getenv_default e ''MSSQL_ENCRYPT'' ''false'') = ''true'')))"
  using success_server [OF assms] success_encrypt [OF assms]
  by (simp add: sublist_def azure_suffix_def)

theorem encrypt_by_target_witness:
  "(\<exists>lg cfg. get_db_config (map_of [(''MSSQL_SERVER'', ''foo.database.windows.net''),
        (''MSSQL_USER'', ''u''), (''MSSQL_PASSWORD'', ''p''), (''MSSQL_DATABASE'', ''d'')]) = (lg, Inr cfg)
      \<and> cfg ''encrypt'' = Some (PyBool True))
   \<and> (\<exists>lg cfg. get_db_config (map_of [(''MSSQL_SERVER'', ''db.example.org''),
        (''MSSQL_USER'', ''u''), (''MSSQL_PASSWORD'', ''p''), (''MSSQL_DATABASE'', ''d'')]) = (lg, Inr cfg)
      \<and> cfg ''encrypt'' = Some (PyBool False))"
proof -
  let ?E1 = "map_of [(''MSSQL_SERVER'', ''foo.database.windows.net''),
        (''MSSQL_USER'', ''u''), (''MSSQL_PASSWORD'', ''p''), (''MSSQL_DATABASE'', ''d'')]"
  let ?E2 = "map_of [(''MSSQL_SERVER'', ''db.example.org''),
        (''MSSQL_USER'', ''u''), (''MSSQL_PASSWORD'', ''p''), (''MSSQL_DATABASE'', ''d'')]"
  have "\<not> isl (snd (get_db_config ?E1))"
    by (simp add: isl_get_db_config getenv_def getenv_default_def lower_false)
  then obtain lg1 cfg1 where r1: "get_db_config ?E1 = (lg1, Inr cfg1)"
    using success_obtain by blast
  have s1: "cfg1 ''server'' = Some (PyStr ''foo.database.windows.net'')"
    using success_server [OF r1] by (simp add: eval_config)
  have "\<not> isl (snd (get_db_config ?E2))"
    by (simp add: isl_get_db_config getenv_def getenv_default_def lower_false)
  then obtain lg2 cfg2 where r2: "get_db_config ?E2 = (lg2, Inr cfg2)"
    using success_obtain by blast
  have s2: "cfg2 ''server'' = Some (PyStr ''db.example.org'')"
    using success_server [OF r2] by (simp add: eval_config)
  from encrypt_by_target [OF r1] s1 foo_is_azure have t1: "cfg1 ''encrypt'' = Some (PyBool True)"
    by (auto simp add: getenv_default_def lower_true)
  from encrypt_by_target [OF r2] s2 example_is_not_azure have t2: "cfg2 ''encrypt'' = Some (PyBool False)"
    by (auto simp add: getenv_default_def lower_false)
  from r1 t1 r2 t2 show ?thesis by blast
qed

text \<open>
  C4 as the specification states it says that every record has an \<^verbatim>\<open>encrypt\<close> key.
  For a cloud server with \<^verbatim>\<open>MSSQL_ENCRYPT=false\<close> the record has none.
\<close>

theorem azure_disabled_has_no_encrypt_key:
  "\<not> isl (snd (get_db_config (map_of [(''MSSQL_SERVER'', ''foo.database.windows.net''),
        (''MSSQL_ENCRYPT'', ''false''), (''MSSQL_USER'', ''u''), (''MSSQL_PASSWORD'', ''p''),
        (''MSSQL_DATABASE'', ''d'')])))
   \<and> projr (snd (get_db_config (map_of [(''MSSQL_SERVER'', ''foo.database.windows.net''),
        (''MSSQL_ENCRYPT'', ''false''), (''MSSQL_USER'', ''u''), (''MSSQL_PASSWORD'', ''p''),
        (''MSSQL_DATABASE'', ''d'')]))) ''encrypt'' = None"
  by (simp add: eval_config contains.simps)

text \<open>
  C3, as the code has it. \<^verbatim>\<open>MSSQL_PORT\<close> never decides whether \<^verbatim>\<open>get_db_config\<close>
  fails. In a record it returns, \<^verbatim>\<open>port\<close> is the string \<^verbatim>\<open>1433\<close> when \<^verbatim>\<open>MSSQL_PORT\<close> is
  unset, and the integer that \<^verbatim>\<open>int\<close> reads when \<^verbatim>\<open>MSSQL_PORT\<close> is set to text that
  \<^verbatim>\<open>int\<close> accepts. A warning is handed to the logger exactly when \<^verbatim>\<open>MSSQL_PORT\<close> is
  set to non-empty text that \<^verbatim>\<open>int\<close> refuses, and it is the record
  \<^verbatim>\<open>Invalid MSSQL_PORT value: <text>. Using default port.\<close>
\<close>

theorem port_resolution:
  "isl (snd (get_db_config (e(''MSSQL_PORT'' := x)))) = isl (snd (get_db_config e))
   \<and> (\<forall>lg cfg. get_db_config e = (lg, Inr cfg) \<longrightarrow>
        (e ''MSSQL_PORT'' = None \<longrightarrow> cfg ''port'' = Some (PyStr ''1433''))
        \<and> (\<forall>p n. e ''MSSQL_PORT'' = Some p \<and> py_int p = Some n \<longrightarrow> cfg ''port'' = Some (PyInt n)))
   \<and> (\<forall>m. ((WARNING, m) \<in> set (fst (get_db_config e))) =
        (\<exists>p. e ''MSSQL_PORT'' = Some p \<and> p \<noteq> [] \<and> py_int p = None
             \<and> m = ''Invalid MSSQL_PORT value: '' @ p @ ''. Using default port.''))"
proof -
  have a: "isl (snd (get_db_config (e(''MSSQL_PORT'' := x)))) = isl (snd (get_db_config e))"
    by (simp add: isl_get_db_config getenv_def getenv_default_def)
  have c: "(e ''MSSQL_PORT'' = None \<longrightarrow> cfg ''port'' = Some (PyStr ''1433''))
        \<and> (\<forall>p n. e ''MSSQL_PORT'' = Some p \<and> py_int p = Some n \<longrightarrow> cfg ''port'' = Some (PyInt n))"
    if "get_db_config e = (lg, Inr cfg)" for lg cfg
    using success_port [OF that] py_int_empty by auto
  from a c warnings_get_db_config [of _ e] show ?thesis by blast
qed

theorem port_resolution_witness:
  "(\<exists>lg cfg. get_db_config (map_of [(''MSSQL_USER'', ''u''), (''MSSQL_PASSWORD'', ''p''),
        (''MSSQL_DATABASE'', ''d'')]) = (lg, Inr cfg)
      \<and> cfg ''port'' = Some (PyStr ''1433''))
   \<and> (\<exists>lg cfg. get_db_config (map_of [(''MSSQL_PORT'', ''1434''), (''MSSQL_USER'', ''u''),
        (''MSSQL_PASSWORD'', ''p''), (''MSSQL_DATABASE'', ''d'')]) = (lg, Inr cfg)
      \<and> py_int ''1434'' = Some 1434 \<and> cfg ''port'' = Some (PyInt 1434))
   \<and> py_int ''notanumber'' = None
   \<and> (WARNING, ''Invalid MSSQL_PORT value: notanumber. Using default port.'')
        \<in> set (fst (get_db_config (map_of [(''MSSQL_PORT'', ''notanumber''), (''MSSQL_USER'', ''u''),
             (''MSSQL_PASSWORD'', ''p''), (''MSSQL_DATABASE'', ''d'')])))
   \<and> \<not> isl (snd (get_db_config (map_of [(''MSSQL_PORT'', ''notanumber''), (''MSSQL_USER'', ''u''),
             (''MSSQL_PASSWORD'', ''p''), (''MSSQL_DATABASE'', ''d'')])))"
proof -
  let ?E1 = "map_of [(''MSSQL_USER'', ''u''), (''MSSQL_PASSWORD'', ''p''), (''MSSQL_DATABASE'', ''d'')]"
  let ?E2 = "map_of [(''MSSQL_PORT'', ''1434''), (''MSSQL_USER'', ''u''),
        (''MSSQL_PASSWORD'', ''p''), (''MSSQL_DATABASE'', ''d'')]"
  let ?E3 = "map_of [(''MSSQL_PORT'', ''notanumber''), (''MSSQL_USER'', ''u''),
        (''MSSQL_PASSWORD'', ''p''), (''MSSQL_DATABASE'', ''d'')]"
  have "\<not> isl (snd (get_db_config ?E1))"
    by (simp add: isl_get_db_config getenv_def getenv_default_def lower_false)
  then obtain lg1 cfg1 where r1: "get_db_config ?E1 = (lg1, Inr cfg1)"
    using success_obtain by blast
  have "\<not> isl (snd (get_db_config ?E2))"
    by (simp add: isl_get_db_config getenv_def getenv_default_def lower_false)
  then obtain lg2 cfg2 where r2: "get_db_config ?E2 = (lg2, Inr cfg2)"
    using success_obtain by blast
  have r3: "\<not> isl (snd (get_db_config ?E3))"
    by (simp add: isl_get_db_config getenv_def getenv_default_def lower_false)
  have p: "py_int ''1434'' = Some 1434"
    by code_simp
  have q: "py_int ''notanumber'' = None"
    by code_simp
  have u: "?E1 ''MSSQL_PORT'' = None" by simp
  have v: "?E2 ''MSSQL_PORT'' = Some ''1434''" by simp
  have w: "?E3 ''MSSQL_PORT'' = Some ''notanumber''" by simp
  from port_resolution [of ?E1] r1 u have t1: "cfg1 ''port'' = Some (PyStr ''1433'')"
    by blast
  from port_resolution [of ?E2] r2 v p have t2: "cfg2 ''port'' = Some (PyInt 1434)"
    by blast
  have t3: "(WARNING, ''Invalid MSSQL_PORT value: notanumber. Using default port.'')
        \<in> set (fst (get_db_config ?E3))"
    by (subst port_resolution [of ?E3, THEN conjunct2, THEN conjunct2, THEN spec]) (simp add: q)
  from r1 t1 have c1: "\<exists>lg cfg. get_db_config ?E1 = (lg, Inr cfg) \<and> cfg ''port'' = Some (PyStr ''1433'')"
    by blast
  from r2 t2 p have c2: "\<exists>lg cfg. get_db_config ?E2 = (lg, Inr cfg)
      \<and> py_int ''1434'' = Some 1434 \<and> cfg ''port'' = Some (PyInt 1434)"
    by blast
  show ?thesis
    by (intro conjI) (rule c1, rule c2, rule q, rule t3, rule r3)
qed

text \<open>
  C3 as the specification states it says that the port is the integer 1433 when
  \<^verbatim>\<open>MSSQL_PORT\<close> is unset or cannot be read as an integer. When it is unset the
  port is the string \<^verbatim>\<open>1433\<close>; with \<^verbatim>\<open>MSSQL_PORT=notanumber\<close> the record keeps the
  string \<^verbatim>\<open>notanumber\<close>.
\<close>

theorem default_port_is_text_and_bad_port_is_kept:
  "\<not> isl (snd (get_db_config (map_of [(''MSSQL_USER'', ''u''), (''MSSQL_PASSWORD'', ''p''),
        (''MSSQL_DATABASE'', ''d'')])))
   \<and> projr (snd (get_db_config (map_of [(''MSSQL_USER'', ''u''), (''MSSQL_PASSWORD'', ''p''),
        (''MSSQL_DATABASE'', ''d'')]))) ''port'' = Some (PyStr ''1433'')
   \<and> PyStr ''1433'' \<noteq> PyInt 1433
   \<and> \<not> isl (snd (get_db_config (map_of [(''MSSQL_PORT'', ''notanumber''), (''MSSQL_USER'', ''u''),
        (''MSSQL_PASSWORD'', ''p''), (''MSSQL_DATABASE'', ''d'')])))
   \<and> projr (snd (get_db_config (map_of [(''MSSQL_PORT'', ''notanumber''), (''MSSQL_USER'', ''u''),
        (''MSSQL_PASSWORD'', ''p''), (''MSSQL_DATABASE'', ''d'')]))) ''port'' = Some (PyStr ''notanumber'')"
proof -
  have p: "py_int ''notanumber'' = None"
    by code_simp
  show ?thesis
    by (simp add: eval_config contains.simps p)
qed

end
